theory Spec2Isabelle
  imports Main "HOL-Library.Word"
begin

section \<open>JavaScript values used by the email notification service\<close>

text \<open>
  A JavaScript string is a sequence of UTF-16 code units. The regular expressions of the
  service carry no \<open>u\<close> flag, so they inspect one code unit at a time; a code unit is a
  16-bit word. \<open>js\<close> embeds an ASCII literal; code units beyond ASCII are written as
  numerals.
\<close>

type_synonym jschar = "16 word"
type_synonym jsstring = "jschar list"

definition js :: "string \<Rightarrow> jsstring" where
  "js s = map (\<lambda>c. of_nat (of_char c)) s"

text \<open>
  A parameter declared \<open>string\<close> may still be missing at run time (\<open>undefined\<close>); the
  service guards against that with \<open>!x\<close>. \<open>None\<close> is \<open>undefined\<close>.
  \<open>falsy\<close> is \<open>!x\<close> on such a value, \<open>orElse\<close> is \<open>x || d\<close>, and \<open>toStr\<close> is the
  conversion a template literal applies to \<open>${x}\<close>.
\<close>

definition falsy :: "jsstring option \<Rightarrow> bool" where
  "falsy x = (case x of None \<Rightarrow> True | Some s \<Rightarrow> s = [])"

definition orElse :: "jsstring option \<Rightarrow> jsstring \<Rightarrow> jsstring" where
  "orElse x d = (case x of None \<Rightarrow> d | Some s \<Rightarrow> if s = [] then d else s)"

definition toStr :: "jsstring option \<Rightarrow> jsstring" where
  "toStr x = (case x of None \<Rightarrow> js ''undefined'' | Some s \<Rightarrow> s)"

text \<open>
  Numbers are IEEE doubles in the source. The service only converts them: \<open>Number(s)\<close>
  on an environment value, truthiness in \<open>n || 587\<close>, the literal \<open>587\<close>, and the
  string conversion of \<open>${item.quantity}\<close>. These four operations of the runtime are
  taken as a parameter over an abstract number type \<open>'n\<close>.
\<close>

record 'n jsnum =
  toNumber :: "jsstring option \<Rightarrow> 'n"
  truthyNum :: "'n \<Rightarrow> bool"
  numLit :: "nat \<Rightarrow> 'n"
  numToString :: "'n \<Rightarrow> jsstring"

text \<open>\<open>Error\<close> objects, each carrying a \<open>message\<close>.\<close>

datatype jserror = Error (message: jsstring) | TypeError (message: jsstring)

text \<open>
  What a \<open>catch (error: any)\<close> may receive. Anything can be thrown or be the reason
  of a rejected promise: \<open>undefined\<close>, \<open>null\<close>, an \<open>Error\<close> object, or some other
  value that has no \<open>message\<close> property (\<open>Plain\<close>).
\<close>

datatype jsvalue = Undefined | Null | ErrorObject jserror | Plain

text \<open>The \<open>TypeError\<close> of the runtime for a property read on \<open>undefined\<close> or \<open>null\<close>.\<close>

definition cannotRead :: "string \<Rightarrow> string \<Rightarrow> jsvalue" where
  "cannotRead v p =
     ErrorObject (TypeError (js ''Cannot read properties of '' @ js v @ js '' (reading '' @
                             [0x27] @ js p @ [0x27] @ js '')''))"

text \<open>
  The property read \<open>error.message\<close>: it throws on \<open>undefined\<close> and \<open>null\<close>, gives the
  message of an \<open>Error\<close> object, and is \<open>undefined\<close> on any other value.
\<close>

definition readMessage :: "jsvalue \<Rightarrow> jsvalue + jsstring option" where
  "readMessage v =
     (case v of
        Undefined \<Rightarrow> Inl (cannotRead ''undefined'' ''message'')
      | Null \<Rightarrow> Inl (cannotRead ''null'' ''message'')
      | ErrorObject e \<Rightarrow> Inr (Some (message e))
      | Plain \<Rightarrow> Inr None)"

section \<open>Regular expressions\<close>

text \<open>
  The two regular expressions of the service use character classes, literal characters,
  concatenation and \<open>+\<close>. \<open>rx_test\<close> is \<open>RegExp.prototype.test\<close> for an expression
  anchored by \<open>^\<close> and \<open>$\<close> without flags: the whole string has to match. It is
  computed by successive derivatives.
\<close>

datatype regex =
    Never
  | Blank
  | OneOf "jschar \<Rightarrow> bool"
  | Either regex regex
  | Then regex regex
  | Many regex

definition Lit :: "jschar \<Rightarrow> regex" where
  "Lit c = OneOf (\<lambda>d. d = c)"

definition Some1 :: "regex \<Rightarrow> regex" where
  "Some1 r = Then r (Many r)"

primrec accepts_empty :: "regex \<Rightarrow> bool" where
  "accepts_empty Never = False"
| "accepts_empty Blank = True"
| "accepts_empty (OneOf p) = False"
| "accepts_empty (Either r s) = (accepts_empty r \<or> accepts_empty s)"
| "accepts_empty (Then r s) = (accepts_empty r \<and> accepts_empty s)"
| "accepts_empty (Many r) = True"

primrec after :: "jschar \<Rightarrow> regex \<Rightarrow> regex" where
  "after c Never = Never"
| "after c Blank = Never"
| "after c (OneOf p) = (if p c then Blank else Never)"
| "after c (Either r s) = Either (after c r) (after c s)"
| "after c (Then r s) =
     (if accepts_empty r then Either (Then (after c r) s) (after c s)
      else Then (after c r) s)"
| "after c (Many r) = Then (after c r) (Many r)"

primrec rx_test :: "regex \<Rightarrow> jsstring \<Rightarrow> bool" where
  "rx_test r [] = accepts_empty r"
| "rx_test r (c # cs) = rx_test (after c r) cs"

text \<open>
  The class \<open>\s\<close> of ECMAScript: the WhiteSpace and LineTerminator code points.
\<close>

definition is_space :: "jschar \<Rightarrow> bool" where
  "is_space c \<longleftrightarrow>
     c = 0x0009 \<or> c = 0x000A \<or> c = 0x000B \<or> c = 0x000C \<or> c = 0x000D \<or> c = 0x0020 \<or>
     c = 0x00A0 \<or> c = 0x1680 \<or> (0x2000 \<le> c \<and> c \<le> 0x200A) \<or> c = 0x2028 \<or>
     c = 0x2029 \<or> c = 0x202F \<or> c = 0x205F \<or> c = 0x3000 \<or> c = 0xFEFF"

definition AT :: jschar where "AT = 0x40"
definition DOT :: jschar where "DOT = 0x2E"

text \<open>The class \<open>[^\s@]\<close>.\<close>

definition not_space_at :: "jschar \<Rightarrow> bool" where
  "not_space_at c \<longleftrightarrow> \<not> is_space c \<and> c \<noteq> AT"

text \<open>\<open>/^[^\s@]+@[^\s@]+\.[^\s@]+$/\<close>\<close>

definition emailRegex :: regex where
  "emailRegex =
     Then (Some1 (OneOf not_space_at))
       (Then (Lit AT)
         (Then (Some1 (OneOf not_space_at))
           (Then (Lit DOT) (Some1 (OneOf not_space_at)))))"

text \<open>
  \<open>isValidEmail\<close>: a missing or empty address is refused before the expression is
  tried (\<open>!email || typeof email !== 'string'\<close>).
\<close>

definition isValidEmail :: "jsstring option \<Rightarrow> bool" where
  "isValidEmail email =
     (case email of
        None \<Rightarrow> False
      | Some s \<Rightarrow> if s = [] then False else rx_test emailRegex s)"

section \<open>escapeHtml\<close>

text \<open>
  \<open>text.replace(/[&<>"']/g, (m) => map[m])\<close>: every code unit of the class is a match
  \<open>m\<close> of length one and is replaced by what the callback returns; the rest is kept.
  \<open>map[m]\<close> is a property lookup, \<open>undefined\<close> for a key the object does not have,
  which \<open>replace\<close> would insert as the text \<open>undefined\<close>.
\<close>

primrec replaceClass :: "(jschar \<Rightarrow> bool) \<Rightarrow> (jsstring \<Rightarrow> jsstring option) \<Rightarrow> jsstring \<Rightarrow> jsstring" where
  "replaceClass cls f [] = []"
| "replaceClass cls f (c # cs) =
     (if cls c then toStr (f [c]) else [c]) @ replaceClass cls f cs"

definition escapeMap :: "(jsstring \<times> jsstring) list" where
  "escapeMap =
     [(js ''&'', js ''&amp;''),
      (js ''<'', js ''&lt;''),
      (js ''>'', js ''&gt;''),
      ([0x22], js ''&quot;''),
      ([0x27], js ''&#039;'')]"

definition htmlSpecial :: "jschar \<Rightarrow> bool" where
  "htmlSpecial c \<longleftrightarrow> c = 0x26 \<or> c = 0x3C \<or> c = 0x3E \<or> c = 0x22 \<or> c = 0x27"

definition escapeHtml :: "jsstring \<Rightarrow> jsstring" where
  "escapeHtml text = replaceClass htmlSpecial (\<lambda>m. map_of escapeMap m) text"

section \<open>Collaborators: environment, console, mail transport\<close>

text \<open>\<open>process.env\<close>: a variable is a string or is not set.\<close>

type_synonym env = "string \<rightharpoonup> jsstring"

text \<open>The payload handed to \<open>sendMail\<close>, and what \<open>sendMail\<close> resolves with.\<close>

record mailOptions =
  opt_from :: jsstring
  opt_to :: jsstring
  opt_subject :: jsstring
  opt_html :: jsstring
  opt_text :: jsstring

record info =
  messageId :: jsstring

text \<open>
  The options given to \<open>nodemailer.createTransport\<close>. A transporter is identified with
  the options it was created from.
\<close>

record 'n smtpOptions =
  host :: jsstring
  port :: 'n
  secure :: bool
  auth_user :: jsstring
  auth_pass :: jsstring

type_synonym 'n transporter = "'n smtpOptions"

text \<open>
  What the service does to the outside: the payloads it handed to \<open>sendMail\<close> (one
  entry per invocation, in order), the console lines it wrote (level and arguments), and
  the transporters it closed.
\<close>

datatype level = LOG | WARN | ERROR

record 'n world =
  sent :: "mailOptions list"
  console :: "(level \<times> jsstring list) list"
  closed :: "'n transporter list"

definition consoleLog :: "jsstring list \<Rightarrow> 'n world \<Rightarrow> 'n world" where
  "consoleLog args w = w\<lparr>console := console w @ [(LOG, args)]\<rparr>"

definition consoleWarn :: "jsstring list \<Rightarrow> 'n world \<Rightarrow> 'n world" where
  "consoleWarn args w = w\<lparr>console := console w @ [(WARN, args)]\<rparr>"

definition consoleError :: "jsstring list \<Rightarrow> 'n world \<Rightarrow> 'n world" where
  "consoleError args w = w\<lparr>console := console w @ [(ERROR, args)]\<rparr>"

text \<open>
  The mail server is outside the program: \<open>smtp k opts\<close> is how the invocation of
  \<open>sendMail\<close> that follows \<open>k\<close> earlier ones answers the payload \<open>opts\<close>. It either
  resolves with an info object or fails, by a throw or a rejected promise, with any
  value at all.
\<close>

type_synonym smtp = "nat \<Rightarrow> mailOptions \<Rightarrow> jsvalue + info"

text \<open>
  A method call on the \<open>transporter\<close> field. The field is declared with a definite
  assignment assertion and stays \<open>undefined\<close> when the constructor returns early; a call
  on \<open>undefined\<close> throws a \<open>TypeError\<close> and reaches nothing outside.
\<close>

definition undefinedCall :: "string \<Rightarrow> jsvalue" where
  "undefinedCall m = cannotRead ''undefined'' m"

definition sendMail ::
  "smtp \<Rightarrow> 'n transporter option \<Rightarrow> mailOptions \<Rightarrow> 'n world \<Rightarrow> (jsvalue + info) \<times> 'n world" where
  "sendMail smtp t opts w =
     (case t of
        None \<Rightarrow> (Inl (undefinedCall ''sendMail''), w)
      | Some _ \<Rightarrow> (smtp (length (sent w)) opts, w\<lparr>sent := sent w @ [opts]\<rparr>))"

definition transporterClose ::
  "'n transporter option \<Rightarrow> 'n world \<Rightarrow> (jsvalue + unit) \<times> 'n world" where
  "transporterClose t w =
     (case t of
        None \<Rightarrow> (Inl (undefinedCall ''close''), w)
      | Some tr \<Rightarrow> (Inr (), w\<lparr>closed := closed w @ [tr]\<rparr>))"

text \<open>
  \<open>try { body } catch (error) { handler }\<close> over a result that is \<open>Inl\<close> when thrown.
  What the handler itself throws is not caught.
\<close>

definition tryCatch ::
  "('w \<Rightarrow> (jsvalue + 'a) \<times> 'w) \<Rightarrow> (jsvalue \<Rightarrow> 'w \<Rightarrow> (jsvalue + 'a) \<times> 'w) \<Rightarrow> 'w \<Rightarrow> (jsvalue + 'a) \<times> 'w" where
  "tryCatch body handler w =
     (case body w of
        (Inl error, w') \<Rightarrow> handler error w'
      | (Inr v, w') \<Rightarrow> (Inr v, w'))"

section \<open>Templates\<close>

text \<open>
  The literal text of the template literals of \<open>EmailNotificationService.ts\<close>, cut at
  their \<open>${...}\<close> holes: \<open>preparingText\<close> and \<open>readyText\<close> from
  \<open>generatePlainTextEmail\<close>, \<open>preparingLi\<close> and \<open>preparingHtml\<close> from
  \<open>generatePreparingEmailTemplate\<close>, \<open>readyLi\<close> and \<open>readyHtml\<close> from
  \<open>generateReadyEmailTemplate\<close>, and the two subject lines.
\<close>

definition preparingText_1 :: jsstring where
  \<open>preparingText_1 = js ''Hola ''\<close>

definition preparingText_2 :: jsstring where
  \<open>preparingText_2 =
   concat
    [js '',\<newline>'',
     js ''\<newline>'',
     js ''Sabemos que tienes hambre y queremos notificarte que tu pedido ya est'' @ [0x00E1] @ js '' en preparaci'' @ [0x00F3] @ js ''n.\<newline>'',
     js ''\<newline>'',
     js ''Tu orden:\<newline>'']\<close>

definition preparingText_3 :: jsstring where
  \<open>preparingText_3 =
   concat
    [js ''\<newline>'',
     js ''\<newline>'',
     js ''Puedes ver el estado de tu pedido en:\<newline>'']\<close>

definition preparingText_4 :: jsstring where
  \<open>preparingText_4 =
   concat
    [js ''\<newline>'',
     js ''\<newline>'',
     [0x00A1] @ js ''Pronto estar'' @ [0x00E1] @ js '' listo!\<newline>'',
     js ''\<newline>'',
     js ''Gracias por tu preferencia,\<newline>'',
     js ''Equipo Delicious Kitchen\<newline>'',
     js ''\<newline>'',
     js ''---\<newline>'',
     js ''Este es un email autom'' @ [0x00E1] @ js ''tico, por favor no respondas a este mensaje.'']\<close>

definition readyText_1 :: jsstring where
  \<open>readyText_1 = js ''Hola ''\<close>

definition readyText_2 :: jsstring where
  \<open>readyText_2 =
   concat
    [js '',\<newline>'',
     js ''\<newline>'',
     [0x00A1] @ js ''Tenemos excelentes noticias! Tu pedido est'' @ [0x00E1] @ js '' listo para recoger.\<newline>'',
     js ''\<newline>'',
     js ''Tu orden:\<newline>'']\<close>

definition readyText_3 :: jsstring where
  \<open>readyText_3 =
   concat
    [js ''\<newline>'',
     js ''\<newline>'',
     js ''Puedes ver el estado de tu pedido en:\<newline>'']\<close>

definition readyText_4 :: jsstring where
  \<open>readyText_4 =
   concat
    [js ''\<newline>'',
     js ''\<newline>'',
     js ''Tambi'' @ [0x00E9] @ js ''n puedes dejar tu rese'' @ [0x00F1] @ js ''a aqu'' @ [0x00ED] @ js '':\<newline>'']\<close>

definition readyText_5 :: jsstring where
  \<open>readyText_5 =
   concat
    [js ''\<newline>'',
     js ''\<newline>'',
     js ''Por favor pasa por nuestro restaurante cuando puedas. '' @ [0x00A1] @ js ''Tu comida te est'' @ [0x00E1] @ js '' esperando!\<newline>'',
     js ''\<newline>'',
     js ''Gracias por tu preferencia,\<newline>'',
     js ''Equipo Delicious Kitchen\<newline>'',
     js ''\<newline>'',
     js ''---\<newline>'',
     js ''Este es un email autom'' @ [0x00E1] @ js ''tico, por favor no respondas a este mensaje.'']\<close>

definition preparingLi_1 :: jsstring where
  \<open>preparingLi_1 =
   concat
    [js ''<li style="padding: 8px 0; border-bottom: 1px solid #f0f0f0;">\<newline>'',
     js ''        <span style="color: #333333; font-weight: 500;">'']\<close>

definition preparingLi_2 :: jsstring where
  \<open>preparingLi_2 =
   concat
    [js ''x</span> \<newline>'',
     js ''        <span style="color: #666666;">'']\<close>

definition preparingLi_3 :: jsstring where
  \<open>preparingLi_3 =
   concat
    [js ''</span>\<newline>'',
     js ''      </li>'']\<close>

definition preparingHtml_1 :: jsstring where
  \<open>preparingHtml_1 =
   concat
    [js ''\<newline>'',
     js ''      <!DOCTYPE html>\<newline>'',
     js ''      <html>\<newline>'',
     js ''      <head>\<newline>'',
     js ''        <meta charset="UTF-8">\<newline>'',
     js ''        <meta name="viewport" content="width=device-width, initial-scale=1.0">\<newline>'',
     js ''        <title>Pedido en Preparaci'' @ [0x00F3] @ js ''n</title>\<newline>'',
     js ''      </head>\<newline>'',
     js ''      <body style="margin: 0; padding: 0; font-family: Arial, sans-serif; background-color: #f4f4f4;">\<newline>'',
     js ''        <table width="100%" cellpadding="0" cellspacing="0" style="background-color: #f4f4f4; padding: 20px;">\<newline>'',
     js ''          <tr>\<newline>'',
     js ''            <td align="center">\<newline>'',
     js ''              <table width="600" cellpadding="0" cellspacing="0" style="background-color: #ffffff; border-radius: 8px; overflow: hidden; box-shadow: 0 2px 4px rgba(0,0,0,0.1);">\<newline>'',
     js ''                \<newline>'',
     js ''                <!-- Header -->\<newline>'',
     js ''                <tr>\<newline>'',
     js ''                  <td style="background: linear-gradient(135deg, #ff7e33 0%, #ff5722 100%); padding: 40px 20px; text-align: center;">\<newline>'',
     js ''                    <h1 style="color: #ffffff; margin: 0; font-size: 28px;">'' @ [0xD83C, 0xDF7D, 0xFE0F] @ js '' Delicious Kitchen</h1>\<newline>'',
     js ''                  </td>\<newline>'',
     js ''                </tr>\<newline>'',
     js ''                \<newline>'',
     js ''                <!-- Body -->\<newline>'',
     js ''                <tr>\<newline>'',
     js ''                  <td style="padding: 40px 30px;">\<newline>'',
     js ''                    <h2 style="color: #333333; margin: 0 0 20px 0;">'' @ [0x00A1] @ js ''Hola '']\<close>

definition preparingHtml_2 :: jsstring where
  \<open>preparingHtml_2 =
   concat
    [js ''! '' @ [0xD83D, 0xDC4B] @ js ''</h2>\<newline>'',
     js ''                    \<newline>'',
     js ''                    <p style="color: #666666; font-size: 16px; line-height: 1.6; margin: 0 0 20px 0;">\<newline>'',
     js ''                      Sabemos que tienes hambre '' @ [0xD83D, 0xDE0B] @ js '', queremos notificarte que <strong style="color: #ff7e33;">tu pedido ya est'' @ [0x00E1] @ js '' en preparaci'' @ [0x00F3] @ js ''n</strong>.\<newline>'',
     js ''                    </p>\<newline>'',
     js ''                    \<newline>'',
     js ''                    <div style="background-color: #fff5f0; border-left: 4px solid #ff7e33; padding: 20px; margin: 30px 0;">\<newline>'',
     js ''                      <p style="color: #333333; font-size: 16px; margin: 0 0 15px 0; font-weight: bold;">Tu orden:</p>\<newline>'',
     js ''                      <ul style="list-style: none; padding: 0; margin: 0;">\<newline>'',
     js ''                        '']\<close>

definition preparingHtml_3 :: jsstring where
  \<open>preparingHtml_3 =
   concat
    [js ''\<newline>'',
     js ''                      </ul>\<newline>'',
     js ''                    </div>\<newline>'',
     js ''                    \<newline>'',
     js ''                    <p style="color: #666666; font-size: 16px; line-height: 1.6; margin: 30px 0 20px 0;">\<newline>'',
     js ''                      Nuestros chefs est'' @ [0x00E1] @ js ''n trabajando en tu pedido. '' @ [0x00A1] @ js ''Pronto estar'' @ [0x00E1] @ js '' listo! '' @ [0xD83D, 0xDC68, 0x200D, 0xD83C, 0xDF73, 0x2728] @ js ''\<newline>'',
     js ''                    </p>\<newline>'',
     js ''                    \<newline>'',
     js ''                    <table width="100%" cellpadding="0" cellspacing="0">\<newline>'',
     js ''                      <tr>\<newline>'',
     js ''                        <td align="center" style="padding: 20px 0;">\<newline>'',
     js ''                          <a href="'']\<close>

definition preparingHtml_4 :: jsstring where
  \<open>preparingHtml_4 =
   concat
    [js ''" style="display: inline-block; background: linear-gradient(135deg, #ff7e33 0%, #ff5722 100%); color: #ffffff; text-decoration: none; padding: 15px 40px; border-radius: 5px; font-size: 16px; font-weight: bold; box-shadow: 0 2px 5px rgba(255,126,51,0.3);">\<newline>'',
     js ''                            Ver estado del pedido\<newline>'',
     js ''                          </a>\<newline>'',
     js ''                        </td>\<newline>'',
     js ''                      </tr>\<newline>'',
     js ''                    </table>\<newline>'',
     js ''                    \<newline>'',
     js ''                    <p style="color: #999999; font-size: 14px; line-height: 1.6; margin: 30px 0 0 0;">\<newline>'',
     js ''                      Gracias por tu preferencia,<br>\<newline>'',
     js ''                      <strong style="color: #ff7e33;">Equipo Delicious Kitchen</strong>\<newline>'',
     js ''                    </p>\<newline>'',
     js ''                  </td>\<newline>'',
     js ''                </tr>\<newline>'',
     js ''                \<newline>'',
     js ''                <!-- Footer -->\<newline>'',
     js ''                <tr>\<newline>'',
     js ''                  <td style="background-color: #f8f9fa; padding: 20px 30px; text-align: center; border-top: 1px solid #e9ecef;">\<newline>'',
     js ''                    <p style="color: #999999; font-size: 12px; margin: 0;">\<newline>'',
     js ''                      Este es un email autom'' @ [0x00E1] @ js ''tico, por favor no respondas a este mensaje.\<newline>'',
     js ''                    </p>\<newline>'',
     js ''                  </td>\<newline>'',
     js ''                </tr>\<newline>'',
     js ''                \<newline>'',
     js ''              </table>\<newline>'',
     js ''            </td>\<newline>'',
     js ''          </tr>\<newline>'',
     js ''        </table>\<newline>'',
     js ''      </body>\<newline>'',
     js ''      </html>\<newline>'',
     js ''    '']\<close>

definition readyLi_1 :: jsstring where
  \<open>readyLi_1 =
   concat
    [js ''<li style="padding: 8px 0; border-bottom: 1px solid #f0f0f0;">\<newline>'',
     js ''        <span style="color: #333333; font-weight: 500;">'']\<close>

definition readyLi_2 :: jsstring where
  \<open>readyLi_2 =
   concat
    [js ''x</span> \<newline>'',
     js ''        <span style="color: #666666;">'']\<close>

definition readyLi_3 :: jsstring where
  \<open>readyLi_3 =
   concat
    [js ''</span>\<newline>'',
     js ''      </li>'']\<close>

definition readyHtml_1 :: jsstring where
  \<open>readyHtml_1 =
   concat
    [js ''\<newline>'',
     js ''      <!DOCTYPE html>\<newline>'',
     js ''      <html>\<newline>'',
     js ''      <head>\<newline>'',
     js ''        <meta charset="UTF-8">\<newline>'',
     js ''        <meta name="viewport" content="width=device-width, initial-scale=1.0">\<newline>'',
     js ''        <title>Pedido Listo</title>\<newline>'',
     js ''      </head>\<newline>'',
     js ''      <body style="margin: 0; padding: 0; font-family: Arial, sans-serif; background-color: #f4f4f4;">\<newline>'',
     js ''        <table width="100%" cellpadding="0" cellspacing="0" style="background-color: #f4f4f4; padding: 20px;">\<newline>'',
     js ''          <tr>\<newline>'',
     js ''            <td align="center">\<newline>'',
     js ''              <table width="600" cellpadding="0" cellspacing="0" style="background-color: #ffffff; border-radius: 8px; overflow: hidden; box-shadow: 0 2px 4px rgba(0,0,0,0.1);">\<newline>'',
     js ''                \<newline>'',
     js ''                <!-- Header -->\<newline>'',
     js ''                <tr>\<newline>'',
     js ''                  <td style="background: linear-gradient(135deg, #ff7e33 0%, #ff5722 100%); padding: 40px 20px; text-align: center;">\<newline>'',
     js ''                    <h1 style="color: #ffffff; margin: 0; font-size: 28px;">'' @ [0xD83C, 0xDF7D, 0xFE0F] @ js '' Delicious Kitchen</h1>\<newline>'',
     js ''                  </td>\<newline>'',
     js ''                </tr>\<newline>'',
     js ''                \<newline>'',
     js ''                <!-- Body -->\<newline>'',
     js ''                <tr>\<newline>'',
     js ''                  <td style="padding: 40px 30px;">\<newline>'',
     js ''                    <h2 style="color: #333333; margin: 0 0 20px 0;">'' @ [0x00A1] @ js ''Hola '']\<close>

definition readyHtml_2 :: jsstring where
  \<open>readyHtml_2 =
   concat
    [js ''! '' @ [0xD83D, 0xDC4B] @ js ''</h2>\<newline>'',
     js ''                    \<newline>'',
     js ''                    <p style="color: #666666; font-size: 18px; line-height: 1.6; margin: 0 0 20px 0;">\<newline>'',
     js ''                      '' @ [0x00A1] @ js ''Tenemos excelentes noticias! <strong style="color: #ff7e33;">Tu pedido est'' @ [0x00E1] @ js '' listo</strong> para recoger '' @ [0xD83C, 0xDF89] @ js ''\<newline>'',
     js ''                    </p>\<newline>'',
     js ''                    \<newline>'',
     js ''                    <div style="background-color: #fff5f0; border-left: 4px solid #ff7e33; padding: 20px; margin: 30px 0;">\<newline>'',
     js ''                      <p style="color: #333333; font-size: 16px; margin: 0 0 15px 0; font-weight: bold;">Tu orden:</p>\<newline>'',
     js ''                      <ul style="list-style: none; padding: 0; margin: 0;">\<newline>'',
     js ''                        '']\<close>

definition readyHtml_3 :: jsstring where
  \<open>readyHtml_3 =
   concat
    [js ''\<newline>'',
     js ''                      </ul>\<newline>'',
     js ''                    </div>\<newline>'',
     js ''                    \<newline>'',
     js ''                    <p style="color: #666666; font-size: 16px; line-height: 1.6; margin: 30px 0 20px 0;">\<newline>'',
     js ''                      Por favor pasa por nuestro restaurante cuando puedas. '' @ [0x00A1] @ js ''Tu comida te est'' @ [0x00E1] @ js '' esperando! '' @ [0xD83E, 0xDD58] @ js ''\<newline>'',
     js ''                    </p>\<newline>'',
     js ''                    \<newline>'',
     js ''                    <table width="100%" cellpadding="0" cellspacing="0">\<newline>'',
     js ''                      <tr>\<newline>'',
     js ''                        <td align="center" style="padding: 10px 0;">\<newline>'',
     js ''                          <a href="'']\<close>

definition readyHtml_4 :: jsstring where
  \<open>readyHtml_4 =
   concat
    [js ''" style="display: inline-block; background: linear-gradient(135deg, #ff7e33 0%, #ff5722 100%); color: #ffffff; text-decoration: none; padding: 15px 40px; border-radius: 5px; font-size: 16px; font-weight: bold; box-shadow: 0 2px 5px rgba(255,126,51,0.3);">\<newline>'',
     js ''                            Ver estado del pedido\<newline>'',
     js ''                          </a>\<newline>'',
     js ''                        </td>\<newline>'',
     js ''                      </tr>\<newline>'',
     js ''                      <tr>\<newline>'',
     js ''                        <td align="center" style="padding: 10px 0;">\<newline>'',
     js ''                          <a href="'']\<close>

definition readyHtml_5 :: jsstring where
  \<open>readyHtml_5 =
   concat
    [js ''" style="display: inline-block; background-color: #ffffff; color: #ff7e33; text-decoration: none; padding: 15px 40px; border-radius: 5px; font-size: 16px; font-weight: bold; border: 2px solid #ff7e33;">\<newline>'',
     js ''                            '' @ [0x2B50] @ js '' Dejar una rese'' @ [0x00F1] @ js ''a\<newline>'',
     js ''                          </a>\<newline>'',
     js ''                        </td>\<newline>'',
     js ''                      </tr>\<newline>'',
     js ''                    </table>\<newline>'',
     js ''                    \<newline>'',
     js ''                    <p style="color: #999999; font-size: 14px; line-height: 1.6; margin: 30px 0 0 0;">\<newline>'',
     js ''                      Gracias por tu preferencia,<br>\<newline>'',
     js ''                      <strong style="color: #ff7e33;">Equipo Delicious Kitchen</strong>\<newline>'',
     js ''                    </p>\<newline>'',
     js ''                  </td>\<newline>'',
     js ''                </tr>\<newline>'',
     js ''                \<newline>'',
     js ''                <!-- Footer -->\<newline>'',
     js ''                <tr>\<newline>'',
     js ''                  <td style="background-color: #f8f9fa; padding: 20px 30px; text-align: center; border-top: 1px solid #e9ecef;">\<newline>'',
     js ''                    <p style="color: #999999; font-size: 12px; margin: 0;">\<newline>'',
     js ''                      Este es un email autom'' @ [0x00E1] @ js ''tico, por favor no respondas a este mensaje.\<newline>'',
     js ''                    </p>\<newline>'',
     js ''                  </td>\<newline>'',
     js ''                </tr>\<newline>'',
     js ''                \<newline>'',
     js ''              </table>\<newline>'',
     js ''            </td>\<newline>'',
     js ''          </tr>\<newline>'',
     js ''        </table>\<newline>'',
     js ''      </body>\<newline>'',
     js ''      </html>\<newline>'',
     js ''    '']\<close>

definition readySubject :: jsstring where
  \<open>readySubject = [0xFFFD] @ js '' '' @ [0x00A1] @ js ''Tu pedido est'' @ [0x00E1] @ js '' listo para recoger!''\<close>

definition preparingSubject :: jsstring where
  \<open>preparingSubject = [0xD83D, 0xDC68, 0x200D, 0xD83C, 0xDF73] @ js '' Tu pedido ya est'' @ [0x00E1] @ js '' en preparaci'' @ [0x00F3] @ js ''n''\<close>

text \<open>\<open>Array.prototype.join\<close>.\<close>

fun joinWith :: "jsstring \<Rightarrow> jsstring list \<Rightarrow> jsstring" where
  "joinWith sep [] = []"
| "joinWith sep [x] = x"
| "joinWith sep (x # y # ys) = x @ sep @ joinWith sep (y # ys)"

record 'n item =
  name :: jsstring
  quantity :: 'n
  price :: "'n option"

datatype emailType = Ready | Preparing

definition orderUrlOf :: "env \<Rightarrow> jsstring \<Rightarrow> jsstring" where
  "orderUrlOf env orderNumber =
     (let frontendUrl = orElse (env ''FRONTEND_URL'') (js ''http://localhost:5173'')
      in frontendUrl @ js ''/orders/'' @ orderNumber)"

definition generatePlainTextEmail ::
  "'n jsnum \<Rightarrow> env \<Rightarrow> jsstring \<Rightarrow> jsstring \<Rightarrow> 'n item list \<Rightarrow> emailType \<Rightarrow> jsstring" where
  "generatePlainTextEmail N env orderNumber customerName items type =
     (let itemsList =
            joinWith (js ''\<newline>'')
              (map (\<lambda>item. js ''- '' @ numToString N (quantity item) @ js ''x '' @ name item) items);
          orderUrl = orderUrlOf env orderNumber
      in if type = Preparing
         then preparingText_1 @ customerName @ preparingText_2 @ itemsList @ preparingText_3 @
              orderUrl @ preparingText_4
         else readyText_1 @ customerName @ readyText_2 @ itemsList @ readyText_3 @
              orderUrl @ readyText_4 @ orderUrl @ readyText_5)"

definition generatePreparingEmailTemplate ::
  "'n jsnum \<Rightarrow> env \<Rightarrow> jsstring \<Rightarrow> jsstring \<Rightarrow> 'n item list \<Rightarrow> jsstring" where
  "generatePreparingEmailTemplate N env orderNumber customerName items =
     (let itemsHtml =
            joinWith []
              (map (\<lambda>item. preparingLi_1 @ numToString N (quantity item) @ preparingLi_2 @
                            escapeHtml (name item) @ preparingLi_3) items);
          orderUrl = orderUrlOf env orderNumber
      in preparingHtml_1 @ escapeHtml customerName @ preparingHtml_2 @ itemsHtml @
         preparingHtml_3 @ orderUrl @ preparingHtml_4)"

definition generateReadyEmailTemplate ::
  "'n jsnum \<Rightarrow> env \<Rightarrow> jsstring \<Rightarrow> jsstring \<Rightarrow> 'n item list \<Rightarrow> jsstring" where
  "generateReadyEmailTemplate N env orderNumber customerName items =
     (let itemsHtml =
            joinWith []
              (map (\<lambda>item. readyLi_1 @ numToString N (quantity item) @ readyLi_2 @
                            escapeHtml (name item) @ readyLi_3) items);
          orderUrl = orderUrlOf env orderNumber
      in readyHtml_1 @ escapeHtml customerName @ readyHtml_2 @ itemsHtml @
         readyHtml_3 @ orderUrl @ readyHtml_4 @ orderUrl @ readyHtml_5)"

section \<open>The service\<close>

text \<open>
  The fields of \<open>EmailNotificationService\<close>. Before the constructor body runs,
  \<open>transporter\<close> is \<open>undefined\<close> and \<open>isConfigured\<close> is \<open>false\<close>.
\<close>

record 'n service =
  transporter :: "'n transporter option"
  isConfigured :: bool

definition newService :: "'n service" where
  "newService = \<lparr>transporter = None, isConfigured = False\<rparr>"

text \<open>
  \<open>verifyConnection\<close> is asynchronous and \<open>initializeTransporter\<close> does not await it: it
  suspends at \<open>await this.transporter.verify()\<close> and the rest runs when that promise
  settles. \<open>verifyConnection verified\<close> is that rest, \<open>verified\<close> being how the promise
  settled. The result is how the promise of \<open>verifyConnection\<close> itself settles, with
  the service and the world it leaves. The handler reads \<open>error.message\<close> as an argument
  of its first statement, so when that read throws, nothing is logged and
  \<open>isConfigured\<close> is not written.
\<close>

definition verifyConnection ::
  "(jsvalue + unit) \<Rightarrow> 'n service \<Rightarrow> 'n world \<Rightarrow> (jsvalue + unit) \<times> 'n service \<times> 'n world" where
  "verifyConnection verified this w =
     (case (case transporter this of
              None \<Rightarrow> Inl (undefinedCall ''verify'')
            | Some _ \<Rightarrow> verified) of
        Inr _ \<Rightarrow>
          (Inr (), this,
           consoleLog [[0x2705] @ js '' [EmailService] Conexi'' @ [0x00F3] @
                       js ''n SMTP verificada correctamente''] w)
      | Inl error \<Rightarrow>
          (case readMessage error of
             Inl thrown \<Rightarrow> (Inl thrown, this, w)
           | Inr msg \<Rightarrow>
               (Inr (), this\<lparr>isConfigured := False\<rparr>,
                consoleWarn [[0x26A0, 0xFE0F] @ js ''  Emails NO se enviar'' @ [0x00E1] @
                             js ''n. Revisa las credenciales en .env'']
                  (consoleError [[0x274C] @ js '' [EmailService] Error al verificar conexi'' @
                                 [0x00F3] @ js ''n SMTP:'', toStr msg] w))))"

text \<open>
  \<open>initializeTransporter\<close> up to the point where \<open>verifyConnection\<close> suspends.
\<close>

definition initializeTransporter ::
  "'n jsnum \<Rightarrow> env \<Rightarrow> 'n service \<Rightarrow> 'n world \<Rightarrow> 'n service \<times> 'n world" where
  "initializeTransporter N env this w =
     (let smtpHost = env ''SMTP_HOST'';
          smtpUser = env ''SMTP_USER'';
          smtpPassword = env ''SMTP_PASSWORD''
      in if falsy smtpHost \<or> falsy smtpUser \<or> falsy smtpPassword
         then (this\<lparr>isConfigured := False\<rparr>,
               consoleWarn [js ''    Configura SMTP_HOST, SMTP_USER y SMTP_PASSWORD en .env'']
                 (consoleWarn [[0x26A0, 0xFE0F] @
                               js ''  [EmailService] Credenciales SMTP no configuradas. Emails NO se enviar'' @
                               [0x00E1] @ js ''n.''] w))
         else (this\<lparr>transporter :=
                      Some \<lparr>host = toStr smtpHost,
                            port = (let p = toNumber N (env ''SMTP_PORT'')
                                    in if truthyNum N p then p else numLit N 587),
                            secure = (env ''SMTP_SECURE'' = Some (js ''true'')),
                            auth_user = toStr smtpUser,
                            auth_pass = toStr smtpPassword\<rparr>,
                    isConfigured := True\<rparr>,
               w))"

definition constructor :: "'n jsnum \<Rightarrow> env \<Rightarrow> 'n world \<Rightarrow> 'n service \<times> 'n world" where
  "constructor N env w = initializeTransporter N env newService w"

text \<open>\<open>!items || items.length === 0\<close>\<close>

definition noItems :: "'n item list option \<Rightarrow> bool" where
  "noItems items = (case items of None \<Rightarrow> True | Some xs \<Rightarrow> length xs = 0)"

definition itemsOf :: "'n item list option \<Rightarrow> 'n item list" where
  "itemsOf items = (case items of None \<Rightarrow> [] | Some xs \<Rightarrow> xs)"

definition defaultFrom :: jsstring where
  \<open>defaultFrom = js ''"Delicious Kitchen" <noreply@deliciouskitchen.com>''\<close>

text \<open>
  The two notification methods. Each returns what the caller of the \<open>async\<close> method
  observes: \<open>Inr b\<close> when the promise resolves with \<open>b\<close>, \<open>Inl e\<close> when it rejects with
  \<open>e\<close>. The \<open>catch\<close> handler evaluates \<open>error.message\<close> as an argument of
  \<open>console.error\<close>; when that read throws, nothing is logged and the promise rejects.
  Past the three guards every argument is present, so \<open>toStr\<close> and \<open>itemsOf\<close>
  return the argument itself there.
\<close>

definition sendOrderReadyNotification ::
  "'n jsnum \<Rightarrow> env \<Rightarrow> smtp \<Rightarrow> 'n service \<Rightarrow>
   jsstring option \<Rightarrow> jsstring option \<Rightarrow> jsstring option \<Rightarrow> 'n item list option \<Rightarrow>
   'n world \<Rightarrow> (jsvalue + bool) \<times> 'n world" where
  "sendOrderReadyNotification N env smtp this orderNumber customerName customerEmail items w =
     (if \<not> isConfigured this then
        (Inr False,
         consoleWarn [[0x26A0, 0xFE0F] @
                      js ''  [EmailService] Servicio no configurado. Email no enviado para orden '' @
                      toStr orderNumber] w)
      else if \<not> isValidEmail customerEmail then
        (Inr False,
         consoleWarn [[0x26A0, 0xFE0F] @ js ''  [EmailService] Email inv'' @ [0x00E1] @
                      js ''lido para orden '' @ toStr orderNumber @ js '': '' @
                      toStr customerEmail] w)
      else if falsy orderNumber \<or> falsy customerName \<or> noItems items then
        (Inr False,
         consoleWarn [[0x26A0, 0xFE0F] @
                      js ''  [EmailService] Datos incompletos para enviar email''] w)
      else
        tryCatch
          (\<lambda>w. let mailOptions =
                     \<lparr>opt_from = orElse (env ''EMAIL_FROM'') defaultFrom,
                      opt_to = toStr customerEmail,
                      opt_subject = readySubject,
                      opt_html = generateReadyEmailTemplate N env (toStr orderNumber)
                                   (toStr customerName) (itemsOf items),
                      opt_text = generatePlainTextEmail N env (toStr orderNumber)
                                   (toStr customerName) (itemsOf items) Ready\<rparr>
                in case sendMail smtp (transporter this) mailOptions w of
                     (Inl error, w') \<Rightarrow> (Inl error, w')
                   | (Inr info, w') \<Rightarrow>
                       (Inr True,
                        consoleLog [js ''   MessageID: '' @ messageId info]
                          (consoleLog [js ''   MessageID: '' @ messageId info]
                            (consoleLog [js ''   Order: '' @ toStr orderNumber]
                              (consoleLog [[0x2705] @ js '' [EmailService] Email '' @ [0x27] @
                                           js ''READY'' @ [0x27] @ js '' enviado a '' @
                                           toStr customerEmail] w')))))
          (\<lambda>error w.
             case readMessage error of
               Inl thrown \<Rightarrow> (Inl thrown, w)
             | Inr msg \<Rightarrow>
                 (Inr False,
                  consoleError [[0x274C] @
                                js '' [EmailService] Error al enviar email para orden '' @
                                toStr orderNumber @ js '':'', toStr msg] w))
          w)"

definition sendOrderPreparingNotification ::
  "'n jsnum \<Rightarrow> env \<Rightarrow> smtp \<Rightarrow> 'n service \<Rightarrow>
   jsstring option \<Rightarrow> jsstring option \<Rightarrow> jsstring option \<Rightarrow> 'n item list option \<Rightarrow>
   'n world \<Rightarrow> (jsvalue + bool) \<times> 'n world" where
  "sendOrderPreparingNotification N env smtp this orderNumber customerName customerEmail items w =
     (if \<not> isConfigured this then
        (Inr False,
         consoleWarn [[0x26A0, 0xFE0F] @
                      js ''  [EmailService] Servicio no configurado. Email no enviado para orden '' @
                      toStr orderNumber] w)
      else if \<not> isValidEmail customerEmail then
        (Inr False,
         consoleWarn [[0x26A0, 0xFE0F] @ js ''  [EmailService] Email inv'' @ [0x00E1] @
                      js ''lido para orden '' @ toStr orderNumber @ js '': '' @
                      toStr customerEmail] w)
      else if falsy orderNumber \<or> falsy customerName \<or> noItems items then
        (Inr False,
         consoleWarn [[0x26A0, 0xFE0F] @
                      js ''  [EmailService] Datos incompletos para enviar email''] w)
      else
        tryCatch
          (\<lambda>w. let mailOptions =
                     \<lparr>opt_from = orElse (env ''EMAIL_FROM'') defaultFrom,
                      opt_to = toStr customerEmail,
                      opt_subject = preparingSubject,
                      opt_html = generatePreparingEmailTemplate N env (toStr orderNumber)
                                   (toStr customerName) (itemsOf items),
                      opt_text = generatePlainTextEmail N env (toStr orderNumber)
                                   (toStr customerName) (itemsOf items) Preparing\<rparr>
                in case sendMail smtp (transporter this) mailOptions w of
                     (Inl error, w') \<Rightarrow> (Inl error, w')
                   | (Inr info, w') \<Rightarrow>
                       (Inr True,
                        consoleLog [js ''   MessageID: '' @ messageId info]
                          (consoleLog [js ''   Order: '' @ toStr orderNumber]
                            (consoleLog [[0x2705] @ js '' [EmailService] Email '' @ [0x27] @
                                         js ''PREPARING'' @ [0x27] @ js '' enviado a '' @
                                         toStr customerEmail] w'))))
          (\<lambda>error w.
             case readMessage error of
               Inl thrown \<Rightarrow> (Inl thrown, w)
             | Inr msg \<Rightarrow>
                 (Inr False,
                  consoleError [[0x274C] @
                                js '' [EmailService] Error al enviar email para orden '' @
                                toStr orderNumber @ js '':'', toStr msg] w))
          w)"

text \<open>\<open>close\<close>: the transporter is closed only when the field holds one.\<close>

definition close :: "'n service \<Rightarrow> 'n world \<Rightarrow> (jsvalue + unit) \<times> 'n world" where
  "close this w =
     (if transporter this \<noteq> None then
        (case transporterClose (transporter this) w of
           (Inl error, w') \<Rightarrow> (Inl error, w')
         | (Inr _, w') \<Rightarrow>
             (Inr (),
              consoleLog [[0xD83D, 0xDD0C] @ js '' [EmailService] Conexi'' @ [0x00F3] @
                          js ''n SMTP cerrada''] w'))
      else (Inr (), w))"

section \<open>Specification-side notions\<close>

text \<open>
  What it means for a string to match a regular expression, independently of how
  \<open>rx_test\<close> computes it.
\<close>

inductive matches :: "regex \<Rightarrow> jsstring \<Rightarrow> bool" where
  m_blank: "matches Blank []"
| m_one: "p c \<Longrightarrow> matches (OneOf p) [c]"
| m_left: "matches r u \<Longrightarrow> matches (Either r s) u"
| m_right: "matches s u \<Longrightarrow> matches (Either r s) u"
| m_then: "matches r u \<Longrightarrow> matches s v \<Longrightarrow> matches (Then r s) (u @ v)"
| m_none: "matches (Many r) []"
| m_more: "matches r u \<Longrightarrow> matches (Many r) v \<Longrightarrow> matches (Many r) (u @ v)"

text \<open>
  The address shape of the specification: a local part, \<open>@\<close>, and a domain with a dot
  in it, where the local part and the two sides of that dot are non-empty and hold
  neither white space nor \<open>@\<close>.
\<close>

definition hasEmailShape :: "jsstring option \<Rightarrow> bool" where
  "hasEmailShape email \<longleftrightarrow>
     (\<exists>local sub tld.
        email = Some (local @ [AT] @ sub @ [DOT] @ tld) \<and>
        local \<noteq> [] \<and> sub \<noteq> [] \<and> tld \<noteq> [] \<and>
        list_all not_space_at local \<and> list_all not_space_at sub \<and> list_all not_space_at tld)"

text \<open>
  The entity table in the words of the specification: \<open>&\<close>, \<open><\<close>, \<open>>\<close>, the double
  quote and the apostrophe become their entities, every other character stays.
\<close>

definition escapeChar :: "jschar \<Rightarrow> jsstring" where
  "escapeChar c =
     (if c = 0x26 then js ''&amp;''
      else if c = 0x3C then js ''&lt;''
      else if c = 0x3E then js ''&gt;''
      else if c = 0x22 then js ''&quot;''
      else if c = 0x27 then js ''&#039;''
      else [c])"

section \<open>Sample inputs and transport doubles\<close>

text \<open>
  A number model for the concrete examples: natural numbers, rendered in decimal;
  \<open>Number(s)\<close> reads a string of decimal digits and is \<open>0\<close> (falsy, as \<open>NaN\<close> is)
  for anything else.
\<close>

fun natDigits :: "nat \<Rightarrow> jsstring" where
  "natDigits n =
     (if n < 10 then [0x30 + of_nat n]
      else natDigits (n div 10) @ [0x30 + of_nat (n mod 10)])"

definition isDigit :: "jschar \<Rightarrow> bool" where
  "isDigit c \<longleftrightarrow> 0x30 \<le> c \<and> c \<le> 0x39"

definition natNum :: "nat jsnum" where
  "natNum =
     \<lparr>toNumber = (\<lambda>s. case s of
                        None \<Rightarrow> 0
                      | Some ds \<Rightarrow> if list_all isDigit ds
                                   then foldl (\<lambda>a d. 10 * a + unat (d - 0x30)) 0 ds else 0),
      truthyNum = (\<lambda>n. n \<noteq> 0),
      numLit = (\<lambda>n. n),
      numToString = natDigits\<rparr>"

definition emptyWorld :: "nat world" where
  "emptyWorld = \<lparr>sent = [], console = [], closed = []\<rparr>"

definition smtpEnv :: env where
  "smtpEnv =
     [''SMTP_HOST'' \<mapsto> js ''smtp.gmail.com'',
      ''SMTP_USER'' \<mapsto> js ''kitchen@gmail.com'',
      ''SMTP_PASSWORD'' \<mapsto> js ''abcdabcdabcdabcd'']"

definition blankFromEnv :: env where
  "blankFromEnv = smtpEnv(''EMAIL_FROM'' \<mapsto> [])"

definition smtpService :: "nat service" where
  "smtpService = fst (constructor natNum smtpEnv emptyWorld)"

definition bareService :: "nat service" where
  "bareService = fst (constructor natNum Map.empty emptyWorld)"

definition taco :: "nat item" where
  "taco = \<lparr>name = js ''Taco'', quantity = 2, price = None\<rparr>"

definition invalidLogin :: jserror where
  "invalidLogin = Error (js ''Invalid login'')"

definition accepted :: info where
  "accepted = \<lparr>messageId = js ''<1@deliciouskitchen.com>''\<rparr>"

text \<open>A transport that rejects every send, one that rejects only the first, one that accepts.\<close>

definition alwaysFails :: smtp where
  "alwaysFails k opts = Inl (ErrorObject invalidLogin)"

definition failsOnce :: smtp where
  "failsOnce k opts = (if k = 0 then Inl (ErrorObject invalidLogin) else Inr accepted)"

definition alwaysAccepts :: smtp where
  "alwaysAccepts k opts = Inr accepted"

text \<open>
  A transport whose \<open>sendMail\<close> rejects with \<open>undefined\<close>, as
  \<open>() => Promise.reject(undefined)\<close> does, and one that looks at the payload: it
  rejects a message with the subject of the ready notification and accepts any other.
\<close>

definition rejectsWithUndefined :: smtp where
  "rejectsWithUndefined k opts = Inl Undefined"


section \<open>Facts about the model\<close>

declare natDigits.simps [simp del]

subsection \<open>Console output leaves the transport alone\<close>

lemma sent_console [simp]:
  "sent (consoleLog a w) = sent w"
  "sent (consoleWarn a w) = sent w"
  "sent (consoleError a w) = sent w"
  by (simp_all add: consoleLog_def consoleWarn_def consoleError_def)

lemma closed_console [simp]:
  "closed (consoleLog a w) = closed w"
  "closed (consoleWarn a w) = closed w"
  "closed (consoleError a w) = closed w"
  by (simp_all add: consoleLog_def consoleWarn_def consoleError_def)

subsection \<open>The derivative matcher decides matching\<close>

inductive_cases matches_NeverE [elim!]: "matches Never u"
inductive_cases matches_BlankE [elim!]: "matches Blank u"
inductive_cases matches_OneOfE [elim!]: "matches (OneOf p) u"
inductive_cases matches_EitherE [elim!]: "matches (Either r s) u"
inductive_cases matches_ThenE [elim!]: "matches (Then r s) u"

lemma then_empty: "matches r [] \<Longrightarrow> matches s [] \<Longrightarrow> matches (Then r s) []"
  using m_then [of r "[]" s "[]"] by simp

lemma accepts_empty_matches: "accepts_empty r \<longleftrightarrow> matches r []"
  by (induction r) (auto intro: matches.intros then_empty)

text \<open>A non-empty match of \<open>r*\<close> starts with a non-empty match of \<open>r\<close>.\<close>

lemma many_head:
  "matches q x \<Longrightarrow> q = Many r \<Longrightarrow> x = c # u \<Longrightarrow>
   \<exists>u1 u2. u = u1 @ u2 \<and> matches r (c # u1) \<and> matches (Many r) u2"
proof (induction q x arbitrary: u rule: matches.induct)
  case (m_more r' a b)
  show ?case
  proof (cases a)
    case Nil
    with m_more show ?thesis by simp
  next
    case (Cons d a')
    with m_more have "u = a' @ b" "matches r (c # a')" "matches (Many r) b" by auto
    then show ?thesis by blast
  qed
qed simp_all

lemma after_matches: "matches (after c r) u \<longleftrightarrow> matches r (c # u)"
proof (induction r arbitrary: u)
  case Never
  show ?case by auto
next
  case Blank
  show ?case by auto
next
  case (OneOf p)
  show ?case by (auto intro: matches.intros split: if_splits)
next
  case (Either r s)
  then show ?case by (auto intro: matches.intros)
next
  case (Then r s)
  show ?case
  proof
    assume "matches (after c (Then r s)) u"
    then consider (l) a b where "u = a @ b" "matches (after c r) a" "matches s b"
      | (r) "accepts_empty r" "matches (after c s) u"
      by (auto split: if_splits)
    then show "matches (Then r s) (c # u)"
    proof cases
      case l
      then have "matches (Then r s) ((c # a) @ b)"
        using Then.IH(1) by (intro m_then) auto
      with l show ?thesis by simp
    next
      case r
      then have "matches (Then r s) ([] @ (c # u))"
        using Then.IH(2) accepts_empty_matches by (intro m_then) auto
      then show ?thesis by simp
    qed
  next
    assume "matches (Then r s) (c # u)"
    then obtain a b where ab: "c # u = a @ b" "matches r a" "matches s b" by auto
    show "matches (after c (Then r s)) u"
    proof (cases a)
      case Nil
      with ab have "accepts_empty r" "matches (after c s) u"
        using Then.IH(2) accepts_empty_matches by auto
      then show ?thesis by (auto intro: matches.intros)
    next
      case (Cons d a')
      with ab have "u = a' @ b" "matches (after c r) a'" using Then.IH(1) by auto
      with ab show ?thesis by (auto intro: matches.intros)
    qed
  qed
next
  case (Many r)
  show ?case
  proof
    assume "matches (after c (Many r)) u"
    then obtain a b where "u = a @ b" "matches (after c r) a" "matches (Many r) b" by auto
    then have "matches (Many r) ((c # a) @ b)" using Many.IH by (intro m_more) auto
    with \<open>u = a @ b\<close> show "matches (Many r) (c # u)" by simp
  next
    assume "matches (Many r) (c # u)"
    from many_head[OF this refl refl]
    obtain a b where "u = a @ b" "matches r (c # a)" "matches (Many r) b" by blast
    then show "matches (after c (Many r)) u" using Many.IH by (auto intro: matches.intros)
  qed
qed

lemma rx_test_matches: "rx_test r u \<longleftrightarrow> matches r u"
  by (induction u arbitrary: r) (simp_all add: accepts_empty_matches after_matches)

lemma many_class: "matches (Many (OneOf p)) u \<longleftrightarrow> list_all p u"
proof
  assume "matches (Many (OneOf p)) u"
  then have "\<forall>q. Many (OneOf p) = Many (OneOf q) \<longrightarrow> list_all q u"
    by (induction "Many (OneOf p)" u rule: matches.induct) auto
  then show "list_all p u" by simp
next
  show "list_all p u \<Longrightarrow> matches (Many (OneOf p)) u"
  proof (induction u)
    case Nil
    show ?case by (rule m_none)
  next
    case (Cons c u)
    then have "matches (Many (OneOf p)) ([c] @ u)"
      by (intro m_more m_one) auto
    then show ?case by simp
  qed
qed

lemma some1_class: "matches (Some1 (OneOf p)) u \<longleftrightarrow> u \<noteq> [] \<and> list_all p u"
proof
  assume "matches (Some1 (OneOf p)) u"
  then show "u \<noteq> [] \<and> list_all p u"
    by (auto simp: Some1_def many_class)
next
  assume "u \<noteq> [] \<and> list_all p u"
  then obtain c v where "u = [c] @ v" "p c" "list_all p v" by (cases u) auto
  then show "matches (Some1 (OneOf p)) u"
    unfolding Some1_def by (auto intro!: m_then m_one simp: many_class simp del: append.simps)
qed

lemma lit_matches: "matches (Lit c) u \<longleftrightarrow> u = [c]"
  by (auto simp: Lit_def intro: matches.intros)

lemma then_matches: "matches (Then r s) u \<longleftrightarrow> (\<exists>a b. u = a @ b \<and> matches r a \<and> matches s b)"
  by (auto intro: matches.intros)

text \<open>\<open>isValidEmail\<close> accepts exactly the addresses of the specification's shape.\<close>

lemma isValidEmail_shape: "isValidEmail email \<longleftrightarrow> hasEmailShape email"
proof (cases email)
  case None
  then show ?thesis by (simp add: isValidEmail_def hasEmailShape_def)
next
  case (Some s)
  have "rx_test emailRegex s \<longleftrightarrow> hasEmailShape (Some s)"
    unfolding rx_test_matches emailRegex_def hasEmailShape_def
    by (simp add: then_matches some1_class lit_matches) blast
  moreover have "hasEmailShape (Some s) \<Longrightarrow> s \<noteq> []"
    by (auto simp: hasEmailShape_def)
  ultimately show ?thesis using Some by (auto simp: isValidEmail_def)
qed

subsection \<open>The sample inputs\<close>

lemmas rx_eval =
  isValidEmail_def js_def emailRegex_def Some1_def Lit_def not_space_at_def is_space_def
  AT_def DOT_def

lemma ana_valid: "isValidEmail (Some (js ''ana@example.com''))"
  by (simp add: rx_eval)

lemma not_an_email_invalid: "\<not> isValidEmail (Some (js ''not-an-email''))"
  by (simp add: rx_eval)

lemma smtpService_ready: "isConfigured smtpService \<and> transporter smtpService \<noteq> None"
  by (simp add: smtpService_def constructor_def initializeTransporter_def newService_def
      smtpEnv_def falsy_def js_def Let_def)

lemma bareService_eq: "bareService = \<lparr>transporter = None, isConfigured = False\<rparr>"
  by (simp add: bareService_def constructor_def initializeTransporter_def newService_def
      falsy_def Let_def)

lemmas send_defs =
  sendOrderReadyNotification_def sendOrderPreparingNotification_def tryCatch_def sendMail_def
  Let_def

lemmas sample_defs =
  falsy_def noItems_def itemsOf_def toStr_def emptyWorld_def js_def readMessage_def

subsection \<open>One call, at most one send\<close>

text \<open>
  Neither method has a loop: whatever the transport answers, a call hands at most one
  payload to \<open>sendMail\<close>.
\<close>

lemma at_most_one_send:
  "length (sent (snd (sendOrderReadyNotification N env smtp this orderNumber customerName
      customerEmail items w))) \<le> length (sent w) + 1"
  "length (sent (snd (sendOrderPreparingNotification N env smtp this orderNumber customerName
      customerEmail items w))) \<le> length (sent w) + 1"
  by (auto simp add: send_defs split: prod.splits sum.splits option.splits)

subsection \<open>When the promise of a notification resolves\<close>

text \<open>
  The only rejection of either method comes from its \<open>catch\<close> handler: the send failed
  with \<open>undefined\<close> or \<open>null\<close>, and reading \<open>error.message\<close> threw. With a
  transport that never fails that way both methods resolve, and a failed send makes them
  resolve with \<open>false\<close>.
\<close>

lemma resolves_unless_nullish_rejection:
  assumes "\<And>opts. smtp (length (sent w)) opts \<noteq> Inl Undefined"
    and "\<And>opts. smtp (length (sent w)) opts \<noteq> Inl Null"
  shows
    "\<exists>b w'. sendOrderReadyNotification N env smtp this orderNumber customerName customerEmail
        items w = (Inr b, w')"
    "\<exists>b w'. sendOrderPreparingNotification N env smtp this orderNumber customerName
        customerEmail items w = (Inr b, w')"
  using assms
  by (auto simp add: send_defs readMessage_def cannotRead_def undefinedCall_def
      split: prod.splits sum.splits option.splits jsvalue.splits)

section \<open>The claims\<close>

text \<open>
  C1, evaluated on the code. A configured service is asked to announce order ORD-1 to
  ana@example.com through a transport that rejects every send. The specification asks
  for three invocations of the send call, two seconds and four seconds apart. The
  method has no loop and no timer: \<open>sendMail\<close> is invoked once, the rejection is
  caught, and the method resolves with \<open>false\<close>.
\<close>

theorem always_failing_transport_is_tried_once:
  "fst (sendOrderReadyNotification natNum smtpEnv alwaysFails smtpService
          (Some (js ''ORD-1'')) (Some (js ''Ana'')) (Some (js ''ana@example.com''))
          (Some [taco]) emptyWorld) = Inr False \<and>
   length (sent (snd (sendOrderReadyNotification natNum smtpEnv alwaysFails smtpService
          (Some (js ''ORD-1'')) (Some (js ''Ana'')) (Some (js ''ana@example.com''))
          (Some [taco]) emptyWorld))) = 1"
  using smtpService_ready ana_valid
  by (auto simp add: send_defs sample_defs alwaysFails_def split: option.splits)

text \<open>
  C2. An address that does not have the shape local part, \<open>@\<close>, domain with a dot is
  refused by both methods: they resolve with \<open>false\<close> and \<open>sendMail\<close> is not invoked.
\<close>

theorem invalid_address_is_rejected:
  assumes "\<not> hasEmailShape customerEmail"
  shows
    "fst (sendOrderReadyNotification N env smtp this orderNumber customerName customerEmail
            items w) = Inr False \<and>
     sent (snd (sendOrderReadyNotification N env smtp this orderNumber customerName
            customerEmail items w)) = sent w \<and>
     fst (sendOrderPreparingNotification N env smtp this orderNumber customerName customerEmail
            items w) = Inr False \<and>
     sent (snd (sendOrderPreparingNotification N env smtp this orderNumber customerName
            customerEmail items w)) = sent w"
proof -
  from assms have "\<not> isValidEmail customerEmail"
    by (simp add: isValidEmail_shape)
  then show ?thesis
    by (simp add: sendOrderReadyNotification_def sendOrderPreparingNotification_def)
qed

theorem invalid_address_is_rejected_witness:
  "\<not> hasEmailShape (Some (js ''not-an-email'')) \<and>
   fst (sendOrderReadyNotification natNum smtpEnv alwaysAccepts smtpService
          (Some (js ''ORD-1'')) (Some (js ''Ana'')) (Some (js ''not-an-email''))
          (Some [taco]) emptyWorld) = Inr False \<and>
   sent (snd (sendOrderReadyNotification natNum smtpEnv alwaysAccepts smtpService
          (Some (js ''ORD-1'')) (Some (js ''Ana'')) (Some (js ''not-an-email''))
          (Some [taco]) emptyWorld)) = []"
proof -
  have h: "\<not> hasEmailShape (Some (js ''not-an-email''))"
    using not_an_email_invalid by (simp add: isValidEmail_shape)
  show ?thesis
    using h invalid_address_is_rejected [OF h, where N = natNum and env = smtpEnv
        and smtp = alwaysAccepts and this = smtpService and orderNumber = "Some (js ''ORD-1'')"
        and customerName = "Some (js ''Ana'')" and items = "Some [taco]" and w = emptyWorld]
    by (simp add: emptyWorld_def)
qed

text \<open>
  C3. The service is unconfigured after a construction without SMTP_HOST, SMTP_USER or
  SMTP_PASSWORD, and after a connection verification that failed with an \<open>Error\<close>
  object or with any other value that is neither \<open>undefined\<close> nor \<open>null\<close>. While it is
  unconfigured, every request to either method resolves with \<open>false\<close> and \<open>sendMail\<close>
  is not invoked. Neither method writes a field of the service, so this holds for every
  later request as well.
\<close>

theorem unconfigured_service_rejects:
  "(falsy (env ''SMTP_HOST'') \<or> falsy (env ''SMTP_USER'') \<or> falsy (env ''SMTP_PASSWORD'')
      \<longrightarrow> \<not> isConfigured (fst (constructor N env w0))) \<and>
   \<not> isConfigured (fst (snd (verifyConnection (Inl (ErrorObject e)) this0 w0))) \<and>
   \<not> isConfigured (fst (snd (verifyConnection (Inl Plain) this0 w0))) \<and>
   (\<not> isConfigured this \<longrightarrow>
      fst (sendOrderReadyNotification N env smtp this orderNumber customerName customerEmail
             items w) = Inr False \<and>
      sent (snd (sendOrderReadyNotification N env smtp this orderNumber customerName
             customerEmail items w)) = sent w \<and>
      fst (sendOrderPreparingNotification N env smtp this orderNumber customerName
             customerEmail items w) = Inr False \<and>
      sent (snd (sendOrderPreparingNotification N env smtp this orderNumber customerName
             customerEmail items w)) = sent w)"
proof (intro conjI impI)
  assume "falsy (env ''SMTP_HOST'') \<or> falsy (env ''SMTP_USER'') \<or> falsy (env ''SMTP_PASSWORD'')"
  then show "\<not> isConfigured (fst (constructor N env w0))"
    by (simp add: constructor_def initializeTransporter_def newService_def)
next
  show "\<not> isConfigured (fst (snd (verifyConnection (Inl (ErrorObject e)) this0 w0)))"
    by (simp add: verifyConnection_def readMessage_def undefinedCall_def cannotRead_def
        split: option.splits)
next
  show "\<not> isConfigured (fst (snd (verifyConnection (Inl Plain) this0 w0)))"
    by (simp add: verifyConnection_def readMessage_def undefinedCall_def cannotRead_def
        split: option.splits)
qed (simp_all add: sendOrderReadyNotification_def sendOrderPreparingNotification_def)

theorem unconfigured_service_rejects_witness:
  "falsy (Map.empty ''SMTP_HOST'') \<and>
   \<not> isConfigured bareService \<and>
   \<not> isConfigured (fst (snd (verifyConnection (Inl (ErrorObject invalidLogin)) smtpService
          emptyWorld))) \<and>
   fst (sendOrderReadyNotification natNum Map.empty alwaysAccepts bareService
          (Some (js ''ORD-1'')) (Some (js ''Ana'')) (Some (js ''ana@example.com''))
          (Some [taco]) emptyWorld) = Inr False \<and>
   sent (snd (sendOrderReadyNotification natNum Map.empty alwaysAccepts bareService
          (Some (js ''ORD-1'')) (Some (js ''Ana'')) (Some (js ''ana@example.com''))
          (Some [taco]) emptyWorld)) = [] \<and>
   fst (sendOrderPreparingNotification natNum Map.empty alwaysAccepts bareService
          (Some (js ''ORD-1'')) (Some (js ''Ana'')) (Some (js ''ana@example.com''))
          (Some [taco]) emptyWorld) = Inr False \<and>
   sent (snd (sendOrderPreparingNotification natNum Map.empty alwaysAccepts bareService
          (Some (js ''ORD-1'')) (Some (js ''Ana'')) (Some (js ''ana@example.com''))
          (Some [taco]) emptyWorld)) = []"
proof -
  have h: "falsy (Map.empty ''SMTP_HOST'')" by (simp add: falsy_def)
  have u: "\<not> isConfigured bareService" by (simp add: bareService_eq)
  show ?thesis
    using h u
      unconfigured_service_rejects [where env = Map.empty and N = natNum
        and ?w0.0 = emptyWorld and e = invalidLogin and ?this0.0 = smtpService
        and this = bareService and smtp = alwaysAccepts
        and orderNumber = "Some (js ''ORD-1'')" and customerName = "Some (js ''Ana'')"
        and customerEmail = "Some (js ''ana@example.com'')" and items = "Some [taco]"
        and w = emptyWorld]
    by (simp add: emptyWorld_def)
qed

text \<open>
  C4, evaluated on the code. A configured service sends the notifications of order
  ORD-1 through a transport whose \<open>sendMail\<close> rejects with \<open>undefined\<close>. The claim
  has every failure of the send caught and turned into \<open>false\<close>, and the comment in
  the handler says that no error is to be thrown. The handler reads \<open>error.message\<close> of
  the value it caught; on \<open>undefined\<close> that read throws a \<open>TypeError\<close>, nothing
  catches it, and the promise of either method rejects.
\<close>

theorem undefined_rejection_escapes_the_handler:
  "fst (sendOrderReadyNotification natNum smtpEnv rejectsWithUndefined smtpService
          (Some (js ''ORD-1'')) (Some (js ''Ana'')) (Some (js ''ana@example.com''))
          (Some [taco]) emptyWorld) = Inl (cannotRead ''undefined'' ''message'') \<and>
   fst (sendOrderPreparingNotification natNum smtpEnv rejectsWithUndefined smtpService
          (Some (js ''ORD-1'')) (Some (js ''Ana'')) (Some (js ''ana@example.com''))
          (Some [taco]) emptyWorld) = Inl (cannotRead ''undefined'' ''message'')"
  using smtpService_ready ana_valid
  by (auto simp add: send_defs falsy_def noItems_def js_def readMessage_def
      rejectsWithUndefined_def split: option.splits)

text \<open>
  C5, evaluated on the code. The same request goes through a transport that rejects the
  first send and would accept the second. The specification asks for two invocations
  and a delivered outcome. The method invokes \<open>sendMail\<close> once, catches the rejection
  and resolves with \<open>false\<close>; the second send never happens.
\<close>

theorem transport_failing_once_is_not_retried:
  "fst (sendOrderReadyNotification natNum smtpEnv failsOnce smtpService
          (Some (js ''ORD-1'')) (Some (js ''Ana'')) (Some (js ''ana@example.com''))
          (Some [taco]) emptyWorld) = Inr False \<and>
   length (sent (snd (sendOrderReadyNotification natNum smtpEnv failsOnce smtpService
          (Some (js ''ORD-1'')) (Some (js ''Ana'')) (Some (js ''ana@example.com''))
          (Some [taco]) emptyWorld))) = 1"
  using smtpService_ready ana_valid
  by (auto simp add: send_defs sample_defs failsOnce_def split: option.splits)




text \<open>
  C7, as stated, at a concrete input. EMAIL_FROM is set, to the empty string; the
  claim makes \<open>from\<close> that value, and the payload carries the default sender.
\<close>

theorem blank_EMAIL_FROM_counterexample:
  "blankFromEnv ''EMAIL_FROM'' = Some [] \<and>
   map opt_from (sent (snd (sendOrderReadyNotification natNum blankFromEnv alwaysAccepts
          smtpService (Some (js ''ORD-1'')) (Some (js ''Ana'')) (Some (js ''ana@example.com''))
          (Some [taco]) emptyWorld))) = [defaultFrom] \<and>
   defaultFrom \<noteq> []"
  using smtpService_ready ana_valid
  by (auto simp add: send_defs sample_defs blankFromEnv_def orElse_def defaultFrom_def
      alwaysAccepts_def split: option.splits)

text \<open>
  C7, amended. A request reaches the send step when the service is configured and
  holds a transporter, the address is valid, and order number, customer name and items
  are non-empty. Then exactly one payload is handed to \<open>sendMail\<close>. Its \<open>to\<close> is the
  recipient address; its \<open>from\<close> is EMAIL_FROM when that is set to a non-empty string
  and the default sender when it is unset or empty; subject, html and text are those of
  the method. The record \<open>mailOptions\<close> has these five fields and no other.
\<close>

theorem payload_handed_to_transport:
  assumes "isConfigured this" and "transporter this = Some t"
    and "isValidEmail (Some customerEmail)"
    and "orderNumber \<noteq> []" and "customerName \<noteq> []" and "items \<noteq> []"
  shows
    "sent (snd (sendOrderReadyNotification N env smtp this (Some orderNumber)
        (Some customerName) (Some customerEmail) (Some items) w)) =
     sent w @
       [\<lparr>opt_from = (case env ''EMAIL_FROM'' of
                       None \<Rightarrow> defaultFrom
                     | Some v \<Rightarrow> if v = [] then defaultFrom else v),
         opt_to = customerEmail,
         opt_subject = readySubject,
         opt_html = generateReadyEmailTemplate N env orderNumber customerName items,
         opt_text = generatePlainTextEmail N env orderNumber customerName items Ready\<rparr>] \<and>
     sent (snd (sendOrderPreparingNotification N env smtp this (Some orderNumber)
        (Some customerName) (Some customerEmail) (Some items) w)) =
     sent w @
       [\<lparr>opt_from = (case env ''EMAIL_FROM'' of
                       None \<Rightarrow> defaultFrom
                     | Some v \<Rightarrow> if v = [] then defaultFrom else v),
         opt_to = customerEmail,
         opt_subject = preparingSubject,
         opt_html = generatePreparingEmailTemplate N env orderNumber customerName items,
         opt_text = generatePlainTextEmail N env orderNumber customerName items Preparing\<rparr>]"
  using assms
  by (auto simp add: send_defs falsy_def noItems_def itemsOf_def toStr_def orElse_def
      split: option.splits prod.splits sum.splits)

theorem payload_handed_to_transport_witness:
  "isConfigured smtpService \<and> transporter smtpService \<noteq> None \<and>
   isValidEmail (Some (js ''ana@example.com'')) \<and>
   js ''ORD-1'' \<noteq> [] \<and> js ''Ana'' \<noteq> [] \<and> [taco] \<noteq> [] \<and>
   map opt_to (sent (snd (sendOrderReadyNotification natNum smtpEnv alwaysAccepts smtpService
          (Some (js ''ORD-1'')) (Some (js ''Ana'')) (Some (js ''ana@example.com''))
          (Some [taco]) emptyWorld))) = [js ''ana@example.com''] \<and>
   map opt_from (sent (snd (sendOrderReadyNotification natNum smtpEnv alwaysAccepts smtpService
          (Some (js ''ORD-1'')) (Some (js ''Ana'')) (Some (js ''ana@example.com''))
          (Some [taco]) emptyWorld))) = [defaultFrom]"
proof -
  obtain t where t: "transporter smtpService = Some t"
    using smtpService_ready by blast
  have c: "isConfigured smtpService" using smtpService_ready by simp
  have o: "js ''ORD-1'' \<noteq> []" and n: "js ''Ana'' \<noteq> []" and i: "[taco] \<noteq> []"
    by (simp_all add: js_def)
  have f: "smtpEnv ''EMAIL_FROM'' = None" by (simp add: smtpEnv_def)
  show ?thesis
    using c t o n i ana_valid f
      payload_handed_to_transport [OF c t ana_valid o n i, where N = natNum
        and env = smtpEnv and smtp = alwaysAccepts and w = emptyWorld]
    by (simp add: emptyWorld_def)
qed

text \<open>
  C8. A missing or empty item list makes both methods resolve with \<open>false\<close> without
  invoking \<open>sendMail\<close>, whatever the other arguments are.
\<close>

theorem missing_items_are_rejected:
  assumes "noItems items"
  shows
    "fst (sendOrderReadyNotification N env smtp this orderNumber customerName customerEmail
            items w) = Inr False \<and>
     sent (snd (sendOrderReadyNotification N env smtp this orderNumber customerName
            customerEmail items w)) = sent w \<and>
     fst (sendOrderPreparingNotification N env smtp this orderNumber customerName customerEmail
            items w) = Inr False \<and>
     sent (snd (sendOrderPreparingNotification N env smtp this orderNumber customerName
            customerEmail items w)) = sent w"
  using assms
  by (simp add: sendOrderReadyNotification_def sendOrderPreparingNotification_def)

theorem missing_items_are_rejected_witness:
  "noItems (Some ([] :: nat item list)) \<and> noItems (None :: nat item list option) \<and>
   isConfigured smtpService \<and> isValidEmail (Some (js ''ana@example.com'')) \<and>
   \<not> falsy (Some (js ''ORD-1'')) \<and> \<not> falsy (Some (js ''Ana'')) \<and>
   fst (sendOrderReadyNotification natNum smtpEnv alwaysAccepts smtpService
          (Some (js ''ORD-1'')) (Some (js ''Ana'')) (Some (js ''ana@example.com''))
          (Some []) emptyWorld) = Inr False \<and>
   sent (snd (sendOrderReadyNotification natNum smtpEnv alwaysAccepts smtpService
          (Some (js ''ORD-1'')) (Some (js ''Ana'')) (Some (js ''ana@example.com''))
          (Some []) emptyWorld)) = [] \<and>
   fst (sendOrderPreparingNotification natNum smtpEnv alwaysAccepts smtpService
          (Some (js ''ORD-1'')) (Some (js ''Ana'')) (Some (js ''ana@example.com''))
          None emptyWorld) = Inr False \<and>
   sent (snd (sendOrderPreparingNotification natNum smtpEnv alwaysAccepts smtpService
          (Some (js ''ORD-1'')) (Some (js ''Ana'')) (Some (js ''ana@example.com''))
          None emptyWorld)) = []"
proof -
  have e: "noItems (Some ([] :: nat item list))" and m: "noItems (None :: nat item list option)"
    by (simp_all add: noItems_def)
  have g: "\<not> falsy (Some (js ''ORD-1''))" "\<not> falsy (Some (js ''Ana''))"
    by (simp_all add: falsy_def js_def)
  show ?thesis
    using e m g smtpService_ready ana_valid
      missing_items_are_rejected [OF e, where N = natNum and env = smtpEnv
        and smtp = alwaysAccepts and this = smtpService and orderNumber = "Some (js ''ORD-1'')"
        and customerName = "Some (js ''Ana'')" and customerEmail = "Some (js ''ana@example.com'')"
        and w = emptyWorld]
      missing_items_are_rejected [OF m, where N = natNum and env = smtpEnv
        and smtp = alwaysAccepts and this = smtpService and orderNumber = "Some (js ''ORD-1'')"
        and customerName = "Some (js ''Ana'')" and customerEmail = "Some (js ''ana@example.com'')"
        and w = emptyWorld]
    by (simp add: emptyWorld_def)
qed

text \<open>
  C9. \<open>escapeHtml\<close> replaces each of \<open>&\<close>, \<open><\<close>, \<open>>\<close>, the double quote and the
  apostrophe by its entity and keeps every other character, and the lookup in the
  entity table never misses. Both HTML templates insert the customer name and the name
  of each item in that escaped form.
\<close>

theorem escapeHtml_replaces_special_characters:
  "escapeHtml s = concat (map escapeChar s) \<and>
   generateReadyEmailTemplate N env orderNumber customerName items =
     readyHtml_1 @ concat (map escapeChar customerName) @ readyHtml_2 @
     concat (map (\<lambda>item. readyLi_1 @ numToString N (quantity item) @ readyLi_2 @
                          concat (map escapeChar (name item)) @ readyLi_3) items) @
     readyHtml_3 @ orderUrlOf env orderNumber @ readyHtml_4 @ orderUrlOf env orderNumber @
     readyHtml_5 \<and>
   generatePreparingEmailTemplate N env orderNumber customerName items =
     preparingHtml_1 @ concat (map escapeChar customerName) @ preparingHtml_2 @
     concat (map (\<lambda>item. preparingLi_1 @ numToString N (quantity item) @ preparingLi_2 @
                          concat (map escapeChar (name item)) @ preparingLi_3) items) @
     preparingHtml_3 @ orderUrlOf env orderNumber @ preparingHtml_4"
proof -
  have esc: "escapeHtml u = concat (map escapeChar u)" for u
    unfolding escapeHtml_def
    by (induction u)
       (simp_all add: htmlSpecial_def escapeChar_def escapeMap_def toStr_def js_def)
  have joined: "joinWith [] xs = concat xs" for xs :: "jsstring list"
    by (induction "[] :: jsstring" xs rule: joinWith.induct) simp_all
  show ?thesis
    by (simp add: esc joined generateReadyEmailTemplate_def
        generatePreparingEmailTemplate_def Let_def)
qed

theorem escapeHtml_replaces_special_characters_witness:
  "escapeHtml (js ''<b>T&C</b>'' @ [0x22, 0x27]) =
   js ''&lt;b&gt;T&amp;C&lt;/b&gt;&quot;&#039;''"
  using escapeHtml_replaces_special_characters
    [where s = "js ''<b>T&C</b>'' @ [0x22, 0x27]", THEN conjunct1]
  by (simp add: escapeChar_def js_def)

text \<open>
  C10. \<open>close\<close> never throws. On a service constructed without SMTP credentials it
  does nothing at all; on a service that holds a transporter it closes that
  transporter.
\<close>

theorem close_never_throws:
  "(\<exists>w'. close this w = (Inr (), w')) \<and>
   (falsy (env ''SMTP_HOST'') \<or> falsy (env ''SMTP_USER'') \<or> falsy (env ''SMTP_PASSWORD'')
      \<longrightarrow> close (fst (constructor N env w0)) w = (Inr (), w)) \<and>
   (transporter this = Some t \<longrightarrow> closed (snd (close this w)) = closed w @ [t])"
proof (intro conjI impI)
  show "\<exists>w'. close this w = (Inr (), w')"
    by (cases "transporter this") (simp_all add: close_def transporterClose_def)
next
  assume "falsy (env ''SMTP_HOST'') \<or> falsy (env ''SMTP_USER'') \<or> falsy (env ''SMTP_PASSWORD'')"
  then have "transporter (fst (constructor N env w0)) = None"
    by (simp add: constructor_def initializeTransporter_def newService_def)
  then show "close (fst (constructor N env w0)) w = (Inr (), w)"
    by (simp add: close_def)
next
  assume "transporter this = Some t"
  then show "closed (snd (close this w)) = closed w @ [t]"
    by (simp add: close_def transporterClose_def)
qed

theorem close_never_throws_witness:
  "falsy (Map.empty ''SMTP_HOST'') \<and>
   close bareService emptyWorld = (Inr (), emptyWorld) \<and>
   (\<exists>t. transporter smtpService = Some t \<and>
        closed (snd (close smtpService emptyWorld)) = [t])"
proof -
  have h: "falsy (Map.empty ''SMTP_HOST'')" by (simp add: falsy_def)
  obtain t where t: "transporter smtpService = Some t"
    using smtpService_ready by blast
  show ?thesis
    using h t
      close_never_throws [where env = Map.empty and N = natNum and ?w0.0 = emptyWorld
        and w = emptyWorld and this = smtpService and t = t]
    by (simp add: bareService_def emptyWorld_def)
qed

end
